theory Spec2Isabelle
  imports Complex_Main "HOL-Library.Log_Nat"
begin

section \<open>Values of the front end\<close>

text \<open>
  A field that TypeScript declares as \<^verbatim>\<open>string | null\<close> may also be missing in the JSON the
  backend sends, so it has three possible shapes at run time.  \<open>falsy\<close> is JavaScript's
  \<^verbatim>\<open>!x\<close> on such a field: \<^verbatim>\<open>undefined\<close>, \<^verbatim>\<open>null\<close> and the empty string are falsy.
\<close>

datatype jsstr = Undefined | Null | Str string

fun falsy :: "jsstr \<Rightarrow> bool" where
  "falsy Undefined = True"
| "falsy Null = True"
| "falsy (Str s) = (s = [])"

text \<open>The \<^verbatim>\<open>User\<close> interface of \<^verbatim>\<open>authService.ts\<close>.\<close>

record User =
  user_id :: string
  username :: string
  email :: string
  role :: jsstr
  company_id :: jsstr
  department_id :: jsstr

section \<open>The session store (\<^verbatim>\<open>stores/authStore.ts\<close>)\<close>

record AuthState =
  isAuthenticated :: bool
  user :: "User option"
  selectedCompanyId :: jsstr

definition initialAuthState :: AuthState where
  "initialAuthState = \<lparr>isAuthenticated = False, user = None, selectedCompanyId = Null\<rparr>"

definition setUser :: "User option \<Rightarrow> AuthState \<Rightarrow> AuthState" where
  "setUser u s = s\<lparr>user := u\<rparr>"

definition setIsAuthenticated :: "bool \<Rightarrow> AuthState \<Rightarrow> AuthState" where
  "setIsAuthenticated b s = s\<lparr>isAuthenticated := b\<rparr>"

definition setSelectedCompanyId :: "jsstr \<Rightarrow> AuthState \<Rightarrow> AuthState" where
  "setSelectedCompanyId c s = s\<lparr>selectedCompanyId := c\<rparr>"

definition clearAuth :: "AuthState \<Rightarrow> AuthState" where
  "clearAuth s = s\<lparr>isAuthenticated := False, user := None, selectedCompanyId := Null\<rparr>"

section \<open>JSON values as the platform gives them\<close>

text \<open>
  A response body is whatever JSON the backend sent.  Numbers are kept to the integers (the
  rendering of a fraction is a matter of floating point and plays no role below); strings are
  byte strings; an object is the list of its own properties, in order, with distinct keys.
\<close>

datatype json =
    JNull
  | JBool bool
  | JNum int
  | JStr string
  | JArr "json list"
  | JObj "(string \<times> json) list"

text \<open>JavaScript truthiness, as used by \<^verbatim>\<open>&&\<close>, \<^verbatim>\<open>||\<close> and \<^verbatim>\<open>if\<close>.\<close>

fun truthy :: "json \<Rightarrow> bool" where
  "truthy JNull = False"
| "truthy (JBool b) = b"
| "truthy (JNum n) = (n \<noteq> 0)"
| "truthy (JStr s) = (s \<noteq> [])"
| "truthy (JArr xs) = True"
| "truthy (JObj kvs) = True"

text \<open>What can be thrown or rejected: the error axios rejects with (it carries the response,
  if any), or the \<^verbatim>\<open>TypeError\<close> of the language.\<close>

record response =
  status :: int
  data :: "json option"

datatype exn = AxiosError "response option" | TypeError

text \<open>
  Reading a property \<^verbatim>\<open>x.k\<close> for a key that no prototype defines: \<^verbatim>\<open>null.k\<close> throws,
  an object gives its own property or \<^verbatim>\<open>undefined\<close> (\<open>None\<close>), every other value gives
  \<^verbatim>\<open>undefined\<close>.
\<close>

fun property :: "json \<Rightarrow> string \<Rightarrow> exn + json option" where
  "property JNull k = Inl TypeError"
| "property (JObj kvs) k = Inr (map_of kvs k)"
| "property (JBool b) k = Inr None"
| "property (JNum n) k = Inr None"
| "property (JStr s) k = Inr None"
| "property (JArr xs) k = Inr None"

text \<open>\<^verbatim>\<open>Array.prototype.join\<close> on an array of strings.\<close>

fun join :: "string \<Rightarrow> string list \<Rightarrow> string" where
  "join sep [] = []"
| "join sep [x] = x"
| "join sep (x # y # ys) = x @ sep @ join sep (y # ys)"

text \<open>\<^verbatim>\<open>JSON.stringify\<close>: decimal integers, quoted strings with the standard escapes.\<close>

definition digit_char :: "nat \<Rightarrow> char" where
  "digit_char n = ''0123456789abcdef'' ! n"

fun digits :: "nat \<Rightarrow> string" where
  "digits n = (if n < 10 then [digit_char n] else digits (n div 10) @ [digit_char (n mod 10)])"

declare digits.simps [simp del]

definition int_to_string :: "int \<Rightarrow> string" where
  "int_to_string i = (if i < 0 then CHR ''-'' # digits (nat (- i)) else digits (nat i))"

definition quote_char :: "char \<Rightarrow> string" where
  "quote_char c =
    (if c = CHR 0x22 then [CHR 0x5C, CHR 0x22]
     else if c = CHR 0x5C then [CHR 0x5C, CHR 0x5C]
     else if c = CHR 0x08 then [CHR 0x5C, CHR ''b'']
     else if c = CHR 0x0C then [CHR 0x5C, CHR ''f'']
     else if c = CHR 0x0A then [CHR 0x5C, CHR ''n'']
     else if c = CHR 0x0D then [CHR 0x5C, CHR ''r'']
     else if c = CHR 0x09 then [CHR 0x5C, CHR ''t'']
     else if (of_char c :: nat) < 0x20 then
       [CHR 0x5C, CHR ''u'', CHR ''0'', CHR ''0'',
        digit_char (of_char c div 16), digit_char (of_char c mod 16)]
     else [c])"

definition quote :: "string \<Rightarrow> string" where
  "quote s = [CHR 0x22] @ concat (map quote_char s) @ [CHR 0x22]"

fun stringify :: "json \<Rightarrow> string" where
  "stringify JNull = ''null''"
| "stringify (JBool b) = (if b then ''true'' else ''false'')"
| "stringify (JNum n) = int_to_string n"
| "stringify (JStr s) = quote s"
| "stringify (JArr xs) = ''['' @ join '','' (map stringify xs) @ '']''"
| "stringify (JObj kvs) =
     ''{'' @ join '','' (map (\<lambda>kv. quote (fst kv) @ '':'' @ stringify (snd kv)) kvs) @ ''}''"

section \<open>The browser tab\<close>

text \<open>
  Everything the code below reads or writes: the \<^verbatim>\<open>token\<close> slot of \<^verbatim>\<open>localStorage\<close>, the
  default \<^verbatim>\<open>Authorization\<close> header of the axios instance, the assignments made to
  \<^verbatim>\<open>window.location.href\<close> (oldest first), the arguments \<^verbatim>\<open>toast.error\<close> was called with
  (oldest first), and the session store.
\<close>

record env =
  token :: "string option"
  authorization :: "string option"
  hrefs :: "string list"
  toasts :: "json list"
  store :: AuthState

definition removeItem_token :: "env \<Rightarrow> env" where
  "removeItem_token e = e\<lparr>token := None\<rparr>"

definition setItem_token :: "string \<Rightarrow> env \<Rightarrow> env" where
  "setItem_token t e = e\<lparr>token := Some t\<rparr>"

definition set_href :: "string \<Rightarrow> env \<Rightarrow> env" where
  "set_href url e = e\<lparr>hrefs := hrefs e @ [url]\<rparr>"

definition toast_error :: "json \<Rightarrow> env \<Rightarrow> env" where
  "toast_error m e = e\<lparr>toasts := toasts e @ [m]\<rparr>"

definition on_store :: "(AuthState \<Rightarrow> AuthState) \<Rightarrow> env \<Rightarrow> env" where
  "on_store f e = e\<lparr>store := f (store e)\<rparr>"

section \<open>The HTTP client adapter (\<^verbatim>\<open>services/api.ts\<close>)\<close>

text \<open>The request interceptor: the header a request leaves with.\<close>

definition request_interceptor :: "env \<Rightarrow> string option \<Rightarrow> string option" where
  "request_interceptor e hdr =
    (case token e of
       None \<Rightarrow> hdr
     | Some t \<Rightarrow> if t \<noteq> [] then Some (''Bearer '' @ t) else hdr)"

text \<open>
  The callback given to \<^verbatim>\<open>detail.map\<close> in the 422 branch.  \<^verbatim>\<open>err.msg\<close> is read when
  \<^verbatim>\<open>err\<close> is not a string, which throws for \<^verbatim>\<open>null\<close>.
\<close>

definition err_message :: "json \<Rightarrow> exn + string" where
  "err_message err =
    (case err of
       JStr s \<Rightarrow> Inr s
     | _ \<Rightarrow>
        (case property err ''msg'' of
           Inl x \<Rightarrow> Inl x
         | Inr (Some (JStr m)) \<Rightarrow> if m \<noteq> [] then Inr m else Inr (stringify err)
         | Inr _ \<Rightarrow> Inr (stringify err)))"

text \<open>\<^verbatim>\<open>Array.prototype.map\<close> with a callback that may throw: the first throw ends it.\<close>

fun array_map :: "('a \<Rightarrow> exn + 'b) \<Rightarrow> 'a list \<Rightarrow> exn + 'b list" where
  "array_map f [] = Inr []"
| "array_map f (x # xs) =
    (case f x of
       Inl e \<Rightarrow> Inl e
     | Inr y \<Rightarrow> (case array_map f xs of Inl e \<Rightarrow> Inl e | Inr ys \<Rightarrow> Inr (y # ys)))"

text \<open>\<^verbatim>\<open>response.data && response.data.detail\<close>, when it is truthy.\<close>

definition detail_of :: "json option \<Rightarrow> json option" where
  "detail_of d =
    (case d of
       None \<Rightarrow> None
     | Some b \<Rightarrow>
        if \<not> truthy b then None
        else (case property b ''detail'' of
                Inr (Some x) \<Rightarrow> if truthy x then Some x else None
              | _ \<Rightarrow> None))"

text \<open>The value of \<^verbatim>\<open>validationMessage\<close> when the 422 branch reaches the toast.\<close>

definition validationMessage :: "json option \<Rightarrow> exn + string" where
  "validationMessage d =
    (case detail_of d of
       None \<Rightarrow> Inr ''Invalid input data.''
     | Some (JArr errs) \<Rightarrow>
        (case array_map err_message errs of
           Inl x \<Rightarrow> Inl x
         | Inr ms \<Rightarrow> Inr (join ''; '' ms))
     | Some (JStr s) \<Rightarrow> Inr s
     | Some detail \<Rightarrow>
        (case property detail ''message'' of
           Inl x \<Rightarrow> Inl x
         | Inr (Some (JStr m)) \<Rightarrow>
             if m \<noteq> [] then Inr m
             else (case detail of JObj kvs \<Rightarrow> Inr (stringify detail)
                   | _ \<Rightarrow> Inr ''Invalid input data.'')
         | Inr _ \<Rightarrow>
             (case detail of JObj kvs \<Rightarrow> Inr (stringify detail)
              | _ \<Rightarrow> Inr ''Invalid input data.'')))"

text \<open>\<^verbatim>\<open>finalMessage || 'Unprocessable Content'\<close>: what the 422 toast shows.\<close>

definition finalMessage :: "string \<Rightarrow> string" where
  "finalMessage m = (if m \<noteq> [] then m else ''Unprocessable Content'')"

text \<open>\<^verbatim>\<open>response.data?.message || 'An unexpected error occurred.'\<close> of the default branch.\<close>

definition errorMessage :: "json option \<Rightarrow> json" where
  "errorMessage d =
    (case d of
       None \<Rightarrow> JStr ''An unexpected error occurred.''
     | Some JNull \<Rightarrow> JStr ''An unexpected error occurred.''
     | Some b \<Rightarrow>
        (case property b ''message'' of
           Inr (Some m) \<Rightarrow> if truthy m then m else JStr ''An unexpected error occurred.''
         | _ \<Rightarrow> JStr ''An unexpected error occurred.''))"

text \<open>
  The error handler of the response interceptor.  It returns the tab after its side effects
  and the value the promise is rejected with: the error it was given, or what the handler
  itself threw.
\<close>

definition response_error :: "env \<Rightarrow> response option \<Rightarrow> env \<times> exn" where
  "response_error e r =
    (case r of
       None \<Rightarrow>
         (toast_error
            (JStr ''Unable to connect to the server. Please check your internet connection.'') e,
          AxiosError r)
     | Some resp \<Rightarrow>
         if status resp = 401 then
           (toast_error (JStr ''Your session has expired. Please login again.'')
              (set_href ''/login'' (removeItem_token e)),
            AxiosError r)
         else if status resp = 403 then
           (toast_error (JStr ''You do not have permission to perform this action.'') e,
            AxiosError r)
         else if status resp = 404 then
           (toast_error (JStr ''The requested resource was not found.'') e, AxiosError r)
         else if status resp = 422 then
           (case validationMessage (data resp) of
              Inl x \<Rightarrow> (e, x)
            | Inr m \<Rightarrow> (toast_error (JStr (finalMessage m)) e, AxiosError r))
         else if status resp = 500 then
           (toast_error
              (JStr ''An error occurred on the server. Please try again later.'') e,
            AxiosError r)
         else (toast_error (errorMessage (data resp)) e, AxiosError r))"

text \<open>
  A call through the adapter, given how the backend answered: a response with a success
  status resolves with its body; anything else goes through the error handler and rejects.
\<close>

definition api_call :: "env \<Rightarrow> response option + 'a \<Rightarrow> env \<times> (exn + 'a)" where
  "api_call e answer =
    (case answer of
       Inr body \<Rightarrow> (e, Inr body)
     | Inl r \<Rightarrow> (case response_error e r of (e', x) \<Rightarrow> (e', Inl x)))"

text \<open>Handling a batch of failed responses, one handler run after the other.\<close>

fun response_errors :: "env \<Rightarrow> response option list \<Rightarrow> env" where
  "response_errors e [] = e"
| "response_errors e (r # rs) = response_errors (fst (response_error e r)) rs"

section \<open>The route guard (\<^verbatim>\<open>components/ProtectedRoute.tsx\<close>)\<close>

text \<open>The optional \<^verbatim>\<open>role\<close> prop: missing, one role, or an array of roles.\<close>

datatype role_prop = NoRole | Role string | Roles "string list"

text \<open>\<^verbatim>\<open>if (role)\<close>: an array is truthy even when empty, a string when it is not empty.\<close>

fun role_given :: "role_prop \<Rightarrow> bool" where
  "role_given NoRole = False"
| "role_given (Role r) = (r \<noteq> [])"
| "role_given (Roles rs) = True"

text \<open>\<^verbatim>\<open>Array.isArray(role) ? role : [role]\<close>.\<close>

fun requiredRoles :: "role_prop \<Rightarrow> string list" where
  "requiredRoles (Roles rs) = rs"
| "requiredRoles (Role r) = [r]"
| "requiredRoles NoRole = []"

text \<open>What the component returns: a \<^verbatim>\<open>Navigate\<close> element (target, the \<^verbatim>\<open>from\<close> location
  of its state if it has one, the \<^verbatim>\<open>replace\<close> flag) or its children.\<close>

datatype 'c element = Navigate string "string option" bool | Children 'c

definition ProtectedRoute :: "env \<Rightarrow> role_prop \<Rightarrow> string \<Rightarrow> 'c \<Rightarrow> env \<times> 'c element" where
  "ProtectedRoute e rp location children =
    (if \<not> isAuthenticated (store e) then (e, Navigate ''/login'' (Some location) True)
     else
       (case user (store e) of
          None \<Rightarrow> (on_store clearAuth e, Navigate ''/login'' (Some location) True)
        | Some u \<Rightarrow>
           if falsy (role u) then
             (on_store clearAuth e, Navigate ''/login'' (Some location) True)
           else
             (case role u of
                Str userRole \<Rightarrow>
                  if role_given rp \<and> userRole \<notin> set (requiredRoles rp) then
                    (if userRole = ''superAdmin'' then
                       (e, Navigate ''/admin/select-company'' None True)
                     else if userRole = ''admin'' then
                       (e, Navigate ''/admin/analytics-dashboard'' None True)
                     else if userRole = ''employee'' then (e, Navigate ''/'' None True)
                     else (e, Navigate ''/'' None True))
                  else (e, Children children)
              \<comment> \<open>not reached: a role that is not falsy is a string\<close>
              | _ \<Rightarrow> (on_store clearAuth e, Navigate ''/login'' (Some location) True))))"

section \<open>The authentication service (\<^verbatim>\<open>services/authService.ts\<close>)\<close>

record LoginCredentials =
  credentials_username :: string
  credentials_password :: string

text \<open>
  The body of a successful \<^verbatim>\<open>POST /auth/login\<close>, as far as \<^verbatim>\<open>login\<close> reads it.  Each
  field may be missing: an empty body, \<^verbatim>\<open>{}\<close> or any other body without the fields is the
  record with \<open>Undefined\<close>, \<open>Undefined\<close> and \<open>None\<close>.  A token that is present is a
  string or \<^verbatim>\<open>null\<close>; a user that is \<^verbatim>\<open>null\<close> or missing is \<open>None\<close>.
\<close>

record LoginResponse =
  access_token :: jsstr
  token_type :: jsstr
  response_user :: "User option"

text \<open>The string a value becomes in \<^verbatim>\<open>localStorage.setItem\<close> and in a template literal.\<close>

fun to_string :: "jsstr \<Rightarrow> string" where
  "to_string Undefined = ''undefined''"
| "to_string Null = ''null''"
| "to_string (Str s) = s"

text \<open>The \<^verbatim>\<open>catch\<close> block of \<^verbatim>\<open>login\<close>, which rethrows what it caught.\<close>

definition login_catch :: "env \<Rightarrow> exn \<Rightarrow> env \<times> (exn + User option)" where
  "login_catch e x =
    (let e1 = removeItem_token e;
         e2 = e1\<lparr>authorization := None\<rparr>;
         e3 = on_store clearAuth e2
     in (e3, Inl x))"

text \<open>
  \<^verbatim>\<open>login\<close>, given the backend's answer to the login request: a failure, or a success with
  its body.  The body \<open>None\<close> is the JSON \<^verbatim>\<open>null\<close>, the one body whose destructuring
  throws; every other body is destructured, with \<^verbatim>\<open>undefined\<close> for the fields it lacks, and
  \<^verbatim>\<open>login\<close> goes on with what it got and resolves with the user, which may be missing.
\<close>

definition login ::
  "env \<Rightarrow> LoginCredentials \<Rightarrow> response option + LoginResponse option
     \<Rightarrow> env \<times> (exn + User option)"
where
  "login e credentials answer =
    (case api_call e answer of
       (e0, Inl x) \<Rightarrow> login_catch e0 x
     | (e0, Inr None) \<Rightarrow> login_catch e0 TypeError
     | (e0, Inr (Some body)) \<Rightarrow>
         (let e1 = setItem_token (to_string (access_token body)) e0;
              e2 = e1\<lparr>authorization := Some (''Bearer '' @ to_string (access_token body))\<rparr>;
              e3 = on_store (setUser (response_user body)) e2;
              e4 = on_store (setIsAuthenticated True) e3
          in (e4, Inr (response_user body))))"

definition logout :: "env \<Rightarrow> env" where
  "logout e =
    (let e1 = removeItem_token e;
         e2 = e1\<lparr>authorization := None\<rparr>;
         e3 = on_store clearAuth e2
     in set_href ''/login'' e3)"

text \<open>
  What \<^verbatim>\<open>jwtDecode\<close> of the jwt-decode package returns: a payload whose \<^verbatim>\<open>exp\<close> claim is a
  number or missing.  The decoder itself is a parameter of everything that calls it: it
  either throws or returns a payload.
\<close>

record JwtPayload =
  jwt_exp :: "real option"

type_synonym decoder = "string \<Rightarrow> exn + JwtPayload"

text \<open>
  \<^verbatim>\<open>isTokenValid\<close> at the time \<open>now\<close> (milliseconds, \<^verbatim>\<open>Date.now()\<close>).  The result is
  \<open>Inr\<close> of the returned boolean, or \<open>Inl\<close> of what the call throws.  An \<^verbatim>\<open>exp\<close> that is
  missing compares as false.
\<close>

definition isTokenValid :: "decoder \<Rightarrow> int \<Rightarrow> env \<Rightarrow> exn + bool" where
  "isTokenValid jwtDecode now e =
    (case token e of
       None \<Rightarrow> Inr False
     | Some t \<Rightarrow>
        if t = [] then Inr False
        else
          (case
             (case jwtDecode t of
                Inl x \<Rightarrow> Inl x
              | Inr decoded \<Rightarrow>
                 (let currentTime = real_of_int now / 1000
                  in case jwt_exp decoded of
                       None \<Rightarrow> Inr False
                     | Some x \<Rightarrow> Inr (x > currentTime)))
           of
             Inl x \<Rightarrow> Inr False
           | Inr b \<Rightarrow> Inr b))"

text \<open>
  \<^verbatim>\<open>refreshToken\<close>, given the backend's answer to \<^verbatim>\<open>GET /auth/me\<close> (a body of \<open>None\<close> is
  an empty one).
\<close>

definition refreshToken ::
  "decoder \<Rightarrow> int \<Rightarrow> env \<Rightarrow> response option + User option \<Rightarrow> env \<times> (exn + User option)"
where
  "refreshToken jwtDecode now e answer =
    (case isTokenValid jwtDecode now e of
       Inl x \<Rightarrow> (e, Inl x)
     | Inr False \<Rightarrow> (on_store clearAuth e, Inr None)
     | Inr True \<Rightarrow>
        (case api_call e answer of
           (e0, Inl x) \<Rightarrow> (on_store clearAuth e0, Inr None)
         | (e0, Inr body) \<Rightarrow>
            (let e1 = on_store (setUser body) e0;
                 e2 = on_store (setIsAuthenticated True) e1
             in (e2, Inr body))))"

section \<open>Session rehydration (\<^verbatim>\<open>App.tsx\<close>)\<close>

text \<open>The two statements that every failing branch of \<^verbatim>\<open>attemptRehydrate\<close> runs.\<close>

definition clear_and_remove :: "env \<Rightarrow> env" where
  "clear_and_remove e = removeItem_token (on_store clearAuth e)"

text \<open>
  \<^verbatim>\<open>attemptRehydrate\<close>: \<open>now1\<close> and \<open>now2\<close> are the clock at its own call of
  \<^verbatim>\<open>isTokenValid\<close> and at the one inside \<^verbatim>\<open>refreshToken\<close>; \<open>rendered\<close> is the
  \<^verbatim>\<open>isAuthenticated\<close> the component rendered with.  The second component is \<open>None\<close> when
  the function ran to its last statement, and what it threw otherwise.
\<close>

definition attemptRehydrate ::
  "decoder \<Rightarrow> int \<Rightarrow> int \<Rightarrow> bool \<Rightarrow> env \<Rightarrow> response option + User option \<Rightarrow> env \<times> exn option"
where
  "attemptRehydrate jwtDecode now1 now2 rendered e answer =
    (if token e \<noteq> None \<and> token e \<noteq> Some [] then
       (case isTokenValid jwtDecode now1 e of
          Inl x \<Rightarrow> (e, Some x)
        | Inr False \<Rightarrow> (clear_and_remove e, None)
        | Inr True \<Rightarrow>
           (case refreshToken jwtDecode now2 e answer of
              (e0, Inl x) \<Rightarrow> (clear_and_remove e0, None)
            | (e0, Inr None) \<Rightarrow> (clear_and_remove e0, None)
            | (e0, Inr (Some refreshedUserData)) \<Rightarrow>
               if falsy (role refreshedUserData) then (clear_and_remove e0, None)
               else
                 (let e1 = on_store (setUser (Some refreshedUserData)) e0;
                      e2 = on_store (setIsAuthenticated True) e1
                  in if role refreshedUserData = Str ''superAdmin'' then
                       (on_store (setSelectedCompanyId Null) e2, None)
                     else if role refreshedUserData = Str ''admin''
                           \<or> role refreshedUserData = Str ''employee'' then
                       (if company_id refreshedUserData \<noteq> Undefined then
                          (on_store (setSelectedCompanyId (company_id refreshedUserData)) e2,
                           None)
                        else (on_store (setSelectedCompanyId Null) e2, None))
                     else (e2, None))))
     else if rendered then (on_store clearAuth e, None)
     else (e, None))"

section \<open>The sign-in page (\<^verbatim>\<open>pages/SignInPage_old.tsx\<close>)\<close>

text \<open>
  The test of \<^verbatim>\<open>/\S+@\S+\.\S+/\<close>: somewhere in the string a character that is not white
  space, an \<^verbatim>\<open>@\<close>, and then a run of characters that are not white space with a dot that is
  neither its first nor its last character.  White space is the ASCII part of \<^verbatim>\<open>\s\<close>.
\<close>

definition is_space :: "char \<Rightarrow> bool" where
  "is_space c = (c \<in> set [CHR 0x20, CHR 0x09, CHR 0x0A, CHR 0x0B, CHR 0x0C, CHR 0x0D])"

definition after_at :: "string \<Rightarrow> bool" where
  "after_at s =
    (let run = takeWhile (\<lambda>c. \<not> is_space c) s
     in list_ex (\<lambda>d. run ! d = CHR ''.'') [1 ..< length run - 1])"

fun email_test :: "string \<Rightarrow> bool" where
  "email_test (c # a # rest) =
     ((\<not> is_space c \<and> a = CHR ''@'' \<and> after_at rest) \<or> email_test (a # rest))"
| "email_test [c] = False"
| "email_test [] = False"

record form_errors =
  email_error :: "string option"
  password_error :: "string option"
  general_error :: "string option"

definition no_errors :: form_errors where
  "no_errors = \<lparr>email_error = None, password_error = None, general_error = None\<rparr>"

text \<open>The state of the page: its \<^verbatim>\<open>errors\<close>, its \<^verbatim>\<open>isLoading\<close> flag and the targets
  \<^verbatim>\<open>navigate\<close> was called with (oldest first).\<close>

record SignInPage =
  errors :: form_errors
  isLoading :: bool
  navigated :: "string list"

definition validateForm :: "string \<Rightarrow> string \<Rightarrow> form_errors" where
  "validateForm em pw =
    (let e1 = (if em = [] then no_errors\<lparr>email_error := Some ''Email is required''\<rparr>
               else if \<not> email_test em then no_errors\<lparr>email_error := Some ''Email is invalid''\<rparr>
               else no_errors);
         e2 = (if pw = [] then e1\<lparr>password_error := Some ''Password is required''\<rparr> else e1)
     in e2)"

definition navigate :: "string \<Rightarrow> SignInPage \<Rightarrow> SignInPage" where
  "navigate target pg = pg\<lparr>navigated := navigated pg @ [target]\<rparr>"

text \<open>
  \<^verbatim>\<open>handleSubmit\<close> with the form holding \<open>em\<close> and \<open>pw\<close>, given the backend's answer to
  the login request.  The \<^verbatim>\<open>finally\<close> block runs on every path through the \<^verbatim>\<open>try\<close>.  When
  \<^verbatim>\<open>login\<close> resolves without a user, reading \<^verbatim>\<open>user.role\<close> throws after the two store
  updates, and the \<^verbatim>\<open>catch\<close> block shows the same message as for a failed login.
\<close>

definition handleSubmit ::
  "env \<Rightarrow> SignInPage \<Rightarrow> string \<Rightarrow> string \<Rightarrow> response option + LoginResponse option
     \<Rightarrow> env \<times> SignInPage"
where
  "handleSubmit e pg em pw answer =
    (let newErrors = validateForm em pw in
     if email_error newErrors \<noteq> None \<or> password_error newErrors \<noteq> None then
       (e, pg\<lparr>errors := newErrors\<rparr>)
     else
       (let pg0 = pg\<lparr>errors := no_errors, isLoading := True\<rparr> in
        case login e \<lparr>credentials_username = em, credentials_password = pw\<rparr> answer of
          (e0, Inl x) \<Rightarrow>
            (e0, pg0\<lparr>errors := no_errors\<lparr>general_error :=
                        Some ''Failed to sign in. Please check your credentials.''\<rparr>,
                     isLoading := False\<rparr>)
        | (e0, Inr None) \<Rightarrow>
            (let e1 = on_store (setUser None) e0;
                 e2 = on_store (setIsAuthenticated True) e1
             in (e2, pg0\<lparr>errors := no_errors\<lparr>general_error :=
                           Some ''Failed to sign in. Please check your credentials.''\<rparr>,
                        isLoading := False\<rparr>))
        | (e0, Inr (Some u)) \<Rightarrow>
            (let e1 = on_store (setUser (Some u)) e0;
                 e2 = on_store (setIsAuthenticated True) e1
             in if role u = Str ''superAdmin'' then
                  (on_store (setSelectedCompanyId Null) e2,
                   (navigate ''/admin/select-company'' pg0)\<lparr>isLoading := False\<rparr>)
                else if role u = Str ''admin'' then
                  (on_store (setSelectedCompanyId (company_id u)) e2,
                   (navigate ''/admin/analytics-dashboard'' pg0)\<lparr>isLoading := False\<rparr>)
                else if role u = Str ''employee'' then
                  (let e3 = on_store (setSelectedCompanyId (company_id u)) e2 in
                   if falsy (department_id u) then
                     (on_store (setUser None) (on_store (setIsAuthenticated False) e3),
                      pg0\<lparr>errors := no_errors\<lparr>general_error := Some
  ''Your account is not associated with a department. Please contact your administrator.''\<rparr>,
                          isLoading := False\<rparr>)
                   else (e3, (navigate ''/tickets'' pg0)\<lparr>isLoading := False\<rparr>))
                else (e2, (navigate ''/'' pg0)\<lparr>isLoading := False\<rparr>))))"

section \<open>Numbers of the tickets client\<close>

text \<open>
  Page, limit and total are integers held in doubles, and the client computes with them in
  double arithmetic.  A result is an integer-valued double, an infinity (by overflow) or
  \<^verbatim>\<open>NaN\<close>; the sign of zero is not kept.  \<open>fl_int n\<close> is the double nearest to the integer
  \<open>n\<close>, ties to the even significand: every integer up to \<open>2 ^ 53\<close> in magnitude is a
  double; a larger one keeps its 53 leading bits.
\<close>

datatype number = Num int | PosInfinity | NegInfinity | NaN

definition fl_int :: "int \<Rightarrow> number" where
  "fl_int n =
    (if \<bar>n\<bar> \<le> 2 ^ 53 then Num n
     else
       (let m = \<bar>n\<bar>;
            k = nat (bitlen m - 53);
            q = m div 2 ^ k;
            r = m mod 2 ^ k;
            half = 2 ^ (k - 1);
            q' = (if half < r \<or> (r = half \<and> odd q) then q + 1 else q);
            v = q' * 2 ^ k
        in if 2 ^ 1024 \<le> v then (if n < 0 then NegInfinity else PosInfinity)
           else Num (sgn n * v)))"

text \<open>The product \<^verbatim>\<open>x * l\<close> of a number and an integer.\<close>

definition times :: "number \<Rightarrow> int \<Rightarrow> number" where
  "times x l =
    (case x of
       Num a \<Rightarrow> fl_int (a * l)
     | PosInfinity \<Rightarrow> if 0 < l then PosInfinity else if l < 0 then NegInfinity else NaN
     | NegInfinity \<Rightarrow> if 0 < l then NegInfinity else if l < 0 then PosInfinity else NaN
     | NaN \<Rightarrow> NaN)"





section \<open>The tickets client (\<^verbatim>\<open>services/ticketService.ts\<close>)\<close>









section \<open>Sample data\<close>

definition fresh_tab :: env where
  "fresh_tab =
    \<lparr>token = None, authorization = None, hrefs = [], toasts = [], store = initialAuthState\<rparr>"

definition sample_user :: "jsstr \<Rightarrow> jsstr \<Rightarrow> User" where
  "sample_user r c =
    \<lparr>user_id = ''u1'', username = ''ana'', email = ''ana@example.com'', role = r,
     company_id = c, department_id = Null\<rparr>"

text \<open>A tab in which the user \<open>u\<close> is signed in with the token \<^verbatim>\<open>tok\<close>.\<close>

definition signed_in :: "User \<Rightarrow> env" where
  "signed_in u =
    \<lparr>token = Some ''tok'', authorization = Some ''Bearer tok'', hrefs = [], toasts = [],
     store = \<lparr>isAuthenticated = True, user = Some u, selectedCompanyId = company_id u\<rparr>\<rparr>"

definition status_only :: "int \<Rightarrow> response option" where
  "status_only n = Some \<lparr>status = n, data = None\<rparr>"


definition idle_page :: SignInPage where
  "idle_page = \<lparr>errors = no_errors, isLoading = False, navigated = []\<rparr>"

definition login_ok :: "User \<Rightarrow> response option + LoginResponse option" where
  "login_ok u =
    Inr (Some \<lparr>access_token = Str ''tok'', token_type = Str ''bearer'',
               response_user = Some u\<rparr>)"

definition sample_decoder :: decoder where
  "sample_decoder t =
    (if t = ''tok'' then Inr \<lparr>jwt_exp = Some 2000\<rparr>
     else if t = ''old'' then Inr \<lparr>jwt_exp = Some 1000\<rparr>
     else Inl TypeError)"

section \<open>Predicates of the specification\<close>

text \<open>A failed response with status 401.\<close>

definition unauthorized :: "response option \<Rightarrow> bool" where
  "unauthorized r = (case r of None \<Rightarrow> False | Some resp \<Rightarrow> status resp = 401)"

text \<open>The invariant of the session: whoever is authenticated has a user record with a role.\<close>

definition role_present :: "AuthState \<Rightarrow> bool" where
  "role_present s =
    (isAuthenticated s \<longrightarrow> (case user s of None \<Rightarrow> False | Some u \<Rightarrow> \<not> falsy (role u)))"

section \<open>Basic facts\<close>

lemma clearAuth_initial: "clearAuth s = initialAuthState"
  by (simp add: clearAuth_def initialAuthState_def)

lemma store_on_store: "store (on_store f e) = f (store e)"
  by (simp add: on_store_def)

lemma store_removeItem_token: "store (removeItem_token e) = store e"
  by (simp add: removeItem_token_def)

lemma role_present_initial: "role_present initialAuthState"
  by (simp add: role_present_def initialAuthState_def)

lemma store_clear_and_remove: "store (clear_and_remove e) = initialAuthState"
  by (simp add: clear_and_remove_def store_removeItem_token store_on_store clearAuth_initial)

lemma response_error_401:
  "status resp = 401 \<Longrightarrow>
     response_error e (Some resp)
       = (e\<lparr>token := None, hrefs := hrefs e @ [''/login''],
             toasts := toasts e @ [JStr ''Your session has expired. Please login again.'']\<rparr>,
          AxiosError (Some resp))"
  by (simp add: response_error_def toast_error_def set_href_def removeItem_token_def)

lemma response_error_rethrows:
  "status r \<noteq> 422 \<Longrightarrow> snd (response_error e (Some r)) = AxiosError (Some r)"
  by (simp add: response_error_def)

lemma falsy_or_role: "falsy x \<or> (\<exists>r. x = Str r \<and> r \<noteq> [])"
  by (cases x) auto

lemma email_test_sample: "email_test ''ana@example.com''"
  by (simp add: after_at_def is_space_def)

section \<open>Properties of the session store\<close>

text \<open>
  Claim C8.  From every prior state of the session store, \<^verbatim>\<open>clearAuth\<close> yields the state
  with \<open>isAuthenticated = False\<close>, no user and no selected company: all three fields are
  reset by the one update, the result is the store's initial state, and clearing a second
  time changes nothing.
\<close>

theorem clearAuth_total_reset:
  fixes s :: AuthState
  shows "isAuthenticated (clearAuth s) = False
       \<and> user (clearAuth s) = None
       \<and> selectedCompanyId (clearAuth s) = Null
       \<and> clearAuth s = initialAuthState
       \<and> clearAuth (clearAuth s) = clearAuth s"
  by (simp add: clearAuth_def initialAuthState_def)


section \<open>Properties of the route guard\<close>

lemma guard_unauthenticated:
  "\<not> isAuthenticated (store e) \<Longrightarrow>
     ProtectedRoute e rp location children = (e, Navigate ''/login'' (Some location) True)"
  by (simp add: ProtectedRoute_def)

lemma guard_corrupted:
  assumes "isAuthenticated (store e)"
      and "user (store e) = None \<or> (\<exists>u. user (store e) = Some u \<and> falsy (role u))"
  shows "ProtectedRoute e rp location children
           = (e\<lparr>store := initialAuthState\<rparr>, Navigate ''/login'' (Some location) True)"
  using assms by (auto simp: ProtectedRoute_def on_store_def clearAuth_initial)

lemma guard_mismatch:
  assumes "isAuthenticated (store e)" and "user (store e) = Some u"
      and "role u = Str r" and "r \<noteq> []"
      and "role_given rp \<and> r \<notin> set (requiredRoles rp)"
  shows "ProtectedRoute e rp location children
           = (e, Navigate (if r = ''superAdmin'' then ''/admin/select-company''
                           else if r = ''admin'' then ''/admin/analytics-dashboard''
                           else ''/'') None True)"
  using assms by (simp add: ProtectedRoute_def)

lemma guard_match:
  assumes "isAuthenticated (store e)" and "user (store e) = Some u"
      and "role u = Str r" and "r \<noteq> []"
      and "\<not> (role_given rp \<and> r \<notin> set (requiredRoles rp))"
  shows "ProtectedRoute e rp location children = (e, Children children)"
  using assms by (auto simp: ProtectedRoute_def)

text \<open>
  Claim C1.  The guard decides in this order and gives exactly one outcome.  (1) Not
  authenticated: redirect to \<^verbatim>\<open>/login\<close> with the attempted location, the tab unchanged.
  (2) Authenticated, but no user or a user without a role: the session store is cleared and
  the redirect to \<^verbatim>\<open>/login\<close> is the same.  (3) Authenticated with the role \<open>r\<close>, and the
  role prop is a single required role other than \<open>r\<close> or an array of roles without \<open>r\<close>:
  redirect to \<^verbatim>\<open>/admin/select-company\<close> for \<^verbatim>\<open>superAdmin\<close>, to
  \<^verbatim>\<open>/admin/analytics-dashboard\<close> for \<^verbatim>\<open>admin\<close>, to \<^verbatim>\<open>/\<close> for \<^verbatim>\<open>employee\<close> and for any other
  role.  (4) Authenticated with the role \<open>r\<close>, and no role prop is given (it is missing or
  the empty string), or it is \<open>r\<close> itself, or an array with \<open>r\<close> in it: the children are
  rendered.  The conditions exclude each other, and the last two conjuncts say that one of
  them always holds, for every state and every role prop.
\<close>

theorem ProtectedRoute_outcome:
  fixes e :: env and children :: 'c
  shows
   "(\<not> isAuthenticated (store e) \<longrightarrow>
       ProtectedRoute e rp location children = (e, Navigate ''/login'' (Some location) True))
  \<and> (isAuthenticated (store e)
        \<and> (user (store e) = None \<or> (\<exists>u. user (store e) = Some u \<and> falsy (role u))) \<longrightarrow>
       ProtectedRoute e rp location children
         = (e\<lparr>store := initialAuthState\<rparr>, Navigate ''/login'' (Some location) True))
  \<and> (\<forall>u r. isAuthenticated (store e) \<and> user (store e) = Some u \<and> role u = Str r \<and> r \<noteq> []
        \<and> ((\<exists>q. rp = Role q \<and> q \<noteq> [] \<and> q \<noteq> r) \<or> (\<exists>qs. rp = Roles qs \<and> r \<notin> set qs)) \<longrightarrow>
       ProtectedRoute e rp location children
         = (e, Navigate (if r = ''superAdmin'' then ''/admin/select-company''
                         else if r = ''admin'' then ''/admin/analytics-dashboard''
                         else ''/'') None True))
  \<and> (\<forall>u r. isAuthenticated (store e) \<and> user (store e) = Some u \<and> role u = Str r \<and> r \<noteq> []
        \<and> (rp = NoRole \<or> rp = Role [] \<or> rp = Role r \<or> (\<exists>qs. rp = Roles qs \<and> r \<in> set qs)) \<longrightarrow>
       ProtectedRoute e rp location children = (e, Children children))
  \<and> (\<not> isAuthenticated (store e)
      \<or> user (store e) = None
      \<or> (\<exists>u. user (store e) = Some u \<and> falsy (role u))
      \<or> (\<exists>u r. user (store e) = Some u \<and> role u = Str r \<and> r \<noteq> []))
  \<and> (\<forall>r. (\<exists>q. rp = Role q \<and> q \<noteq> [] \<and> q \<noteq> r) \<or> (\<exists>qs. rp = Roles qs \<and> r \<notin> set qs)
          \<or> rp = NoRole \<or> rp = Role [] \<or> rp = Role r \<or> (\<exists>qs. rp = Roles qs \<and> r \<in> set qs))"
proof (intro conjI allI impI)
  assume "\<not> isAuthenticated (store e)"
  then show "ProtectedRoute e rp location children
               = (e, Navigate ''/login'' (Some location) True)"
    by (rule guard_unauthenticated)
next
  assume "isAuthenticated (store e)
        \<and> (user (store e) = None \<or> (\<exists>u. user (store e) = Some u \<and> falsy (role u)))"
  then show "ProtectedRoute e rp location children
         = (e\<lparr>store := initialAuthState\<rparr>, Navigate ''/login'' (Some location) True)"
    by (intro guard_corrupted) simp_all
next
  fix u r
  assume h: "isAuthenticated (store e) \<and> user (store e) = Some u \<and> role u = Str r \<and> r \<noteq> []
        \<and> ((\<exists>q. rp = Role q \<and> q \<noteq> [] \<and> q \<noteq> r) \<or> (\<exists>qs. rp = Roles qs \<and> r \<notin> set qs))"
  then have g: "role_given rp \<and> r \<notin> set (requiredRoles rp)" by auto
  from h have a: "isAuthenticated (store e)" and b: "user (store e) = Some u"
    and c: "role u = Str r" and d: "r \<noteq> []" by simp_all
  from guard_mismatch [OF a b c d g]
  show "ProtectedRoute e rp location children
         = (e, Navigate (if r = ''superAdmin'' then ''/admin/select-company''
                         else if r = ''admin'' then ''/admin/analytics-dashboard''
                         else ''/'') None True)" .
next
  fix u r
  assume h: "isAuthenticated (store e) \<and> user (store e) = Some u \<and> role u = Str r \<and> r \<noteq> []
        \<and> (rp = NoRole \<or> rp = Role [] \<or> rp = Role r \<or> (\<exists>qs. rp = Roles qs \<and> r \<in> set qs))"
  then have g: "\<not> (role_given rp \<and> r \<notin> set (requiredRoles rp))" by auto
  from h have a: "isAuthenticated (store e)" and b: "user (store e) = Some u"
    and c: "role u = Str r" and d: "r \<noteq> []" by simp_all
  from guard_match [OF a b c d g]
  show "ProtectedRoute e rp location children = (e, Children children)" .
next
  show "\<not> isAuthenticated (store e)
      \<or> user (store e) = None
      \<or> (\<exists>u. user (store e) = Some u \<and> falsy (role u))
      \<or> (\<exists>u r. user (store e) = Some u \<and> role u = Str r \<and> r \<noteq> [])"
  proof (cases "user (store e)")
    case None
    then show ?thesis by simp
  next
    case (Some u)
    with falsy_or_role [of "role u"] show ?thesis by auto
  qed
next
  fix r
  show "(\<exists>q. rp = Role q \<and> q \<noteq> [] \<and> q \<noteq> r) \<or> (\<exists>qs. rp = Roles qs \<and> r \<notin> set qs)
          \<or> rp = NoRole \<or> rp = Role [] \<or> rp = Role r \<or> (\<exists>qs. rp = Roles qs \<and> r \<in> set qs)"
    by (cases rp) auto
qed

theorem ProtectedRoute_outcome_witness:
  "ProtectedRoute fresh_tab (Role ''admin'') ''/admin/team'' ()
     = (fresh_tab, Navigate ''/login'' (Some ''/admin/team'') True)
   \<and> ProtectedRoute (signed_in (sample_user Null (Str ''T1''))) (Role ''admin'') ''/admin/team'' ()
     = ((signed_in (sample_user Null (Str ''T1'')))\<lparr>store := initialAuthState\<rparr>,
        Navigate ''/login'' (Some ''/admin/team'') True)
   \<and> ProtectedRoute (signed_in (sample_user (Str ''employee'') (Str ''T1'')))
        (Role ''superAdmin'') ''/admin/select-company'' ()
     = (signed_in (sample_user (Str ''employee'') (Str ''T1'')), Navigate ''/'' None True)
   \<and> ProtectedRoute (signed_in (sample_user (Str ''superAdmin'') Null))
        (Role ''admin'') ''/admin/team'' ()
     = (signed_in (sample_user (Str ''superAdmin'') Null),
        Navigate ''/admin/select-company'' None True)
   \<and> ProtectedRoute (signed_in (sample_user (Str ''admin'') (Str ''T1'')))
        (Role ''employee'') ''/employee/dashboard'' ()
     = (signed_in (sample_user (Str ''admin'') (Str ''T1'')),
        Navigate ''/admin/analytics-dashboard'' None True)
   \<and> ProtectedRoute (signed_in (sample_user (Str ''admin'') (Str ''T1'')))
        (Role ''admin'') ''/admin/team'' ()
     = (signed_in (sample_user (Str ''admin'') (Str ''T1'')), Children ())
   \<and> ProtectedRoute (signed_in (sample_user (Str ''employee'') (Str ''T1'')))
        (Roles [''admin'', ''superAdmin'']) ''/admin/documentation'' ()
     = (signed_in (sample_user (Str ''employee'') (Str ''T1'')), Navigate ''/'' None True)
   \<and> ProtectedRoute (signed_in (sample_user (Str ''employee'') (Str ''T1'')))
        (Roles [''admin'', ''employee'']) ''/tickets'' ()
     = (signed_in (sample_user (Str ''employee'') (Str ''T1'')), Children ())
   \<and> ProtectedRoute (signed_in (sample_user (Str ''employee'') (Str ''T1'')))
        NoRole ''/profile'' ()
     = (signed_in (sample_user (Str ''employee'') (Str ''T1'')), Children ())"
proof -
  let ?null = "signed_in (sample_user Null (Str ''T1''))"
  let ?emp = "signed_in (sample_user (Str ''employee'') (Str ''T1''))"
  let ?adm = "signed_in (sample_user (Str ''admin'') (Str ''T1''))"
  let ?sup = "signed_in (sample_user (Str ''superAdmin'') Null)"
  have p1: "\<not> isAuthenticated (store fresh_tab)"
    by (simp add: fresh_tab_def initialAuthState_def)
  have p2: "isAuthenticated (store ?null)
      \<and> (user (store ?null) = None \<or> (\<exists>u. user (store ?null) = Some u \<and> falsy (role u)))"
    by (simp add: signed_in_def sample_user_def)
  have emp: "isAuthenticated (store ?emp)
      \<and> user (store ?emp) = Some (sample_user (Str ''employee'') (Str ''T1''))
      \<and> role (sample_user (Str ''employee'') (Str ''T1'')) = Str ''employee''
      \<and> ''employee'' \<noteq> []"
    by (simp add: signed_in_def sample_user_def)
  have adm: "isAuthenticated (store ?adm)
      \<and> user (store ?adm) = Some (sample_user (Str ''admin'') (Str ''T1''))
      \<and> role (sample_user (Str ''admin'') (Str ''T1'')) = Str ''admin''
      \<and> ''admin'' \<noteq> []"
    by (simp add: signed_in_def sample_user_def)
  have sup: "isAuthenticated (store ?sup)
      \<and> user (store ?sup) = Some (sample_user (Str ''superAdmin'') Null)
      \<and> role (sample_user (Str ''superAdmin'') Null) = Str ''superAdmin''
      \<and> ''superAdmin'' \<noteq> []"
    by (simp add: signed_in_def sample_user_def)
  note unauth = ProtectedRoute_outcome [of fresh_tab "Role ''admin''" "''/admin/team''" "()",
      THEN conjunct1, THEN mp, OF p1]
  note corrupted = ProtectedRoute_outcome [of ?null "Role ''admin''" "''/admin/team''" "()",
      THEN conjunct2, THEN conjunct1, THEN mp, OF p2]
  have w3: "ProtectedRoute ?emp (Role ''superAdmin'') ''/admin/select-company'' ()
              = (?emp, Navigate ''/'' None True)"
    using emp ProtectedRoute_outcome [of ?emp "Role ''superAdmin''" "''/admin/select-company''"
        "()", THEN conjunct2, THEN conjunct2, THEN conjunct1, rule_format,
        of "sample_user (Str ''employee'') (Str ''T1'')" "''employee''"]
    by simp
  have w4: "ProtectedRoute ?sup (Role ''admin'') ''/admin/team'' ()
              = (?sup, Navigate ''/admin/select-company'' None True)"
    using sup ProtectedRoute_outcome [of ?sup "Role ''admin''" "''/admin/team''"
        "()", THEN conjunct2, THEN conjunct2, THEN conjunct1, rule_format,
        of "sample_user (Str ''superAdmin'') Null" "''superAdmin''"]
    by simp
  have w5: "ProtectedRoute ?adm (Role ''employee'') ''/employee/dashboard'' ()
              = (?adm, Navigate ''/admin/analytics-dashboard'' None True)"
    using adm ProtectedRoute_outcome [of ?adm "Role ''employee''" "''/employee/dashboard''"
        "()", THEN conjunct2, THEN conjunct2, THEN conjunct1, rule_format,
        of "sample_user (Str ''admin'') (Str ''T1'')" "''admin''"]
    by simp
  have w6: "ProtectedRoute ?adm (Role ''admin'') ''/admin/team'' () = (?adm, Children ())"
    using adm ProtectedRoute_outcome [of ?adm "Role ''admin''" "''/admin/team''"
        "()", THEN conjunct2, THEN conjunct2, THEN conjunct2, THEN conjunct1, rule_format,
        of "sample_user (Str ''admin'') (Str ''T1'')" "''admin''"]
    by simp
  have w7: "ProtectedRoute ?emp (Roles [''admin'', ''superAdmin'']) ''/admin/documentation'' ()
              = (?emp, Navigate ''/'' None True)"
    using emp ProtectedRoute_outcome [of ?emp "Roles [''admin'', ''superAdmin'']"
        "''/admin/documentation''"
        "()", THEN conjunct2, THEN conjunct2, THEN conjunct1, rule_format,
        of "sample_user (Str ''employee'') (Str ''T1'')" "''employee''"]
    by simp
  have w8: "ProtectedRoute ?emp (Roles [''admin'', ''employee'']) ''/tickets'' ()
              = (?emp, Children ())"
    using emp ProtectedRoute_outcome [of ?emp "Roles [''admin'', ''employee'']" "''/tickets''"
        "()", THEN conjunct2, THEN conjunct2, THEN conjunct2, THEN conjunct1, rule_format,
        of "sample_user (Str ''employee'') (Str ''T1'')" "''employee''"]
    by simp
  have w9: "ProtectedRoute ?emp NoRole ''/profile'' () = (?emp, Children ())"
    using emp ProtectedRoute_outcome [of ?emp NoRole "''/profile''"
        "()", THEN conjunct2, THEN conjunct2, THEN conjunct2, THEN conjunct1, rule_format,
        of "sample_user (Str ''employee'') (Str ''T1'')" "''employee''"]
    by simp
  from unauth corrupted w3 w4 w5 w6 w7 w8 w9 show ?thesis by (intro conjI)
qed

section \<open>Properties of the HTTP client adapter\<close>

text \<open>
  Claim C2, as amended.  For every failed response with status 401 the error handler removes
  the stored token, assigns \<^verbatim>\<open>/login\<close> to the location, shows the session-expired
  notification and rejects with the error it was given, so that a call through the adapter
  fails with that error.  The session store and the default authorization header are left as
  they were.
\<close>

theorem unauthorized_response_handling:
  assumes "status resp = 401"
  shows "token (fst (response_error e (Some resp))) = None
       \<and> hrefs (fst (response_error e (Some resp))) = hrefs e @ [''/login'']
       \<and> toasts (fst (response_error e (Some resp)))
           = toasts e @ [JStr ''Your session has expired. Please login again.'']
       \<and> snd (response_error e (Some resp)) = AxiosError (Some resp)
       \<and> api_call e (Inl (Some resp) :: response option + unit)
           = (fst (response_error e (Some resp)), Inl (AxiosError (Some resp)))
       \<and> store (fst (response_error e (Some resp))) = store e
       \<and> authorization (fst (response_error e (Some resp))) = authorization e"
  using assms by (simp add: response_error_401 api_call_def)

theorem unauthorized_response_handling_witness:
  "token (fst (response_error (signed_in (sample_user (Str ''admin'') (Str ''T1'')))
                 (status_only 401))) = None
   \<and> hrefs (fst (response_error (signed_in (sample_user (Str ''admin'') (Str ''T1'')))
                 (status_only 401))) = [''/login'']
   \<and> snd (response_error (signed_in (sample_user (Str ''admin'') (Str ''T1'')))
            (status_only 401)) = AxiosError (status_only 401)"
  using unauthorized_response_handling [of "\<lparr>status = 401, data = None\<rparr>"
      "signed_in (sample_user (Str ''admin'') (Str ''T1''))"]
  by (simp add: status_only_def signed_in_def)

text \<open>
  Claim C2 as stated fails: after a 401 in a tab where a tenant administrator is signed in,
  the token is gone but the session store still says authenticated, with its user and its
  selected company.
\<close>

theorem unauthorized_keeps_session_store:
  "token (fst (response_error (signed_in (sample_user (Str ''admin'') (Str ''T1'')))
                 (status_only 401))) = None
   \<and> isAuthenticated (store (fst (response_error
        (signed_in (sample_user (Str ''admin'') (Str ''T1''))) (status_only 401)))) = True
   \<and> user (store (fst (response_error
        (signed_in (sample_user (Str ''admin'') (Str ''T1''))) (status_only 401))))
        = Some (sample_user (Str ''admin'') (Str ''T1''))
   \<and> selectedCompanyId (store (fst (response_error
        (signed_in (sample_user (Str ''admin'') (Str ''T1''))) (status_only 401)))) = Str ''T1''"
  by (simp add: status_only_def response_error_401 signed_in_def sample_user_def)

text \<open>
  The 422 branch, shape by shape.  The handler throws exactly when \<^verbatim>\<open>detail\<close> is an array
  with a \<^verbatim>\<open>null\<close> entry; in every other case it shows one notification, a string that is
  not empty, and rejects with the error of the response.  A string \<^verbatim>\<open>detail\<close> is shown as
  it is, an array of objects with \<^verbatim>\<open>msg\<close> strings shows the messages joined by \<^verbatim>\<open>; \<close>, an
  object shows its \<^verbatim>\<open>message\<close> or its JSON text, and a missing \<^verbatim>\<open>detail\<close> shows the
  default message.
\<close>

lemma finalMessage_nonempty: "finalMessage m \<noteq> []"
  by (simp add: finalMessage_def)

lemma stringify_object_nonempty: "stringify (JObj kvs) \<noteq> []"
  by simp

lemma err_message_throws: "err_message x = Inl t \<longleftrightarrow> x = JNull \<and> t = TypeError"
  by (cases x) (auto simp: err_message_def split: option.splits json.splits)

lemma array_map_throws:
  "array_map err_message xs = Inl t \<longleftrightarrow> JNull \<in> set xs \<and> t = TypeError"
proof (induction xs)
  case Nil
  then show ?case by simp
next
  case (Cons x xs)
  show ?case
  proof (cases "err_message x")
    case (Inl a)
    then show ?thesis using err_message_throws [of x a] by auto
  next
    case (Inr m)
    then have "x \<noteq> JNull" using err_message_throws [of x TypeError] by auto
    with Inr Cons.IH show ?thesis by (auto split: sum.splits)
  qed
qed

lemma detail_of_truthy: "detail_of d = Some x \<Longrightarrow> truthy x"
  by (auto simp: detail_of_def split: option.splits if_splits sum.splits)

lemma validationMessage_throws:
  "validationMessage d = Inl t \<longleftrightarrow>
     (\<exists>errs. detail_of d = Some (JArr errs) \<and> JNull \<in> set errs) \<and> t = TypeError"
proof (cases "detail_of d")
  case None
  then show ?thesis by (simp add: validationMessage_def)
next
  case (Some x)
  from detail_of_truthy [OF Some] have tr: "truthy x" .
  show ?thesis
  proof (cases x)
    case (JArr errs)
    with Some array_map_throws [of errs t] show ?thesis
      by (auto simp: validationMessage_def split: sum.splits)
  qed (use Some tr in \<open>auto simp: validationMessage_def split: option.splits json.splits\<close>)
qed

lemma validation_toast:
  assumes "status resp = 422"
      and "\<not> (\<exists>errs. detail_of (data resp) = Some (JArr errs) \<and> JNull \<in> set errs)"
  shows "\<exists>m. m \<noteq> [] \<and> response_error e (Some resp)
                 = (e\<lparr>toasts := toasts e @ [JStr m]\<rparr>, AxiosError (Some resp))"
proof (cases "validationMessage (data resp)")
  case (Inl t)
  with assms(2) validationMessage_throws [of "data resp" t] show ?thesis by blast
next
  case (Inr m)
  with assms(1) have "response_error e (Some resp)
      = (e\<lparr>toasts := toasts e @ [JStr (finalMessage m)]\<rparr>, AxiosError (Some resp))"
    by (simp add: response_error_def toast_error_def)
  with finalMessage_nonempty [of m] show ?thesis by blast
qed

lemma validation_string_detail:
  "detail_of d = Some (JStr s) \<Longrightarrow> validationMessage d = Inr s \<and> finalMessage s = s"
  using detail_of_truthy [of d "JStr s"]
  by (simp add: validationMessage_def finalMessage_def)

lemma array_map_msgs:
  "list_all2 (\<lambda>x m. \<exists>kvs. x = JObj kvs \<and> map_of kvs ''msg'' = Some (JStr m) \<and> m \<noteq> []) errs ms
     \<Longrightarrow> array_map err_message errs = Inr ms"
  by (induction errs ms rule: list_all2_induct) (auto simp: err_message_def)

lemma validation_array_detail:
  assumes "detail_of d = Some (JArr errs)"
      and "list_all2 (\<lambda>x m. \<exists>kvs. x = JObj kvs \<and> map_of kvs ''msg'' = Some (JStr m) \<and> m \<noteq> [])
             errs ms"
  shows "validationMessage d = Inr (join ''; '' ms)"
  using assms by (simp add: validationMessage_def array_map_msgs)

lemma validation_object_detail:
  assumes "detail_of d = Some (JObj kvs)"
  shows "validationMessage d
           = Inr (case map_of kvs ''message'' of
                    Some (JStr m) \<Rightarrow> if m \<noteq> [] then m else stringify (JObj kvs)
                  | _ \<Rightarrow> stringify (JObj kvs))"
  using assms by (simp add: validationMessage_def split: option.splits json.splits)

lemma validation_no_detail:
  "detail_of d = None \<Longrightarrow> validationMessage d = Inr ''Invalid input data.''"
  by (simp add: validationMessage_def)

text \<open>
  Claim C3 at the input where the code departs from it: a 422 response whose \<^verbatim>\<open>detail\<close>
  is the array \<^verbatim>\<open>[null]\<close>.  The handler throws a \<^verbatim>\<open>TypeError\<close> while reading \<^verbatim>\<open>err.msg\<close>:
  no notification is shown and the caller is rejected with the \<^verbatim>\<open>TypeError\<close>, not with the
  error of the response.
\<close>

theorem validation_null_entry_throws:
  "response_error e (Some \<lparr>status = 422, data = Some (JObj [(''detail'', JArr [JNull])])\<rparr>)
     = (e, TypeError)"
  by (simp add: response_error_def validationMessage_def detail_of_def err_message_def)

lemma response_errors_unauthorized:
  "list_all unauthorized rs \<Longrightarrow>
     response_errors e rs
       = e\<lparr>token := (if rs = [] then token e else None),
            hrefs := hrefs e @ replicate (length rs) ''/login'',
            toasts := toasts e
               @ replicate (length rs) (JStr ''Your session has expired. Please login again.'')\<rparr>"
proof (induction rs arbitrary: e)
  case Nil
  then show ?case by simp
next
  case (Cons r rs)
  from Cons.prems obtain resp where r: "r = Some resp" and s: "status resp = 401"
    by (auto simp: unauthorized_def split: option.splits)
  from Cons.prems have rest: "list_all unauthorized rs" by simp
  show ?case
    by (simp add: r response_error_401 [OF s] Cons.IH [OF rest] replicate_app_Cons_same)
qed

text \<open>
  Claim C4, as amended.  Nothing de-duplicates the 401 side effect: when the handler runs for
  each of \<open>n\<close> failed responses with status 401, \<open>n\<close> session-expired notifications are
  shown and \<^verbatim>\<open>/login\<close> is assigned to the location \<open>n\<close> times; the session store is not
  touched.
\<close>

theorem unauthorized_repeated_per_failure:
  assumes "list_all unauthorized rs"
  shows "toasts (response_errors e rs)
           = toasts e @ replicate (length rs) (JStr ''Your session has expired. Please login again.'')
       \<and> hrefs (response_errors e rs) = hrefs e @ replicate (length rs) ''/login''
       \<and> store (response_errors e rs) = store e"
  by (simp add: response_errors_unauthorized [OF assms])

theorem unauthorized_repeated_per_failure_witness:
  "list_all unauthorized [status_only 401, status_only 401, status_only 401]
   \<and> toasts (response_errors fresh_tab [status_only 401, status_only 401, status_only 401])
       = [JStr ''Your session has expired. Please login again.'',
          JStr ''Your session has expired. Please login again.'',
          JStr ''Your session has expired. Please login again.'']
   \<and> hrefs (response_errors fresh_tab [status_only 401, status_only 401, status_only 401])
       = [''/login'', ''/login'', ''/login'']"
proof -
  have h: "list_all unauthorized [status_only 401, status_only 401, status_only 401]"
    by (simp add: unauthorized_def status_only_def)
  show ?thesis
    using h unauthorized_repeated_per_failure [OF h, of fresh_tab]
    by (simp add: fresh_tab_def)
qed

text \<open>
  Claim C4 as stated fails: two failed responses with status 401 in a fresh tab leave two
  notifications and two assignments of the login location.
\<close>

theorem two_unauthorized_two_notifications:
  "toasts (response_errors fresh_tab [status_only 401, status_only 401])
     = [JStr ''Your session has expired. Please login again.'',
        JStr ''Your session has expired. Please login again.'']
   \<and> hrefs (response_errors fresh_tab [status_only 401, status_only 401])
     = [''/login'', ''/login'']"
  by (simp add: status_only_def response_error_401 fresh_tab_def)

section \<open>Properties of the numbers\<close>












section \<open>Properties of the tickets client\<close>




section \<open>Properties of signing in\<close>



section \<open>Properties of the authentication service\<close>

lemma login_rejected:
  "login e credentials (Inl r)
     = (fst (response_error e r)\<lparr>token := None, authorization := None, store := initialAuthState\<rparr>,
        Inl (snd (response_error e r)))"
  by (cases "response_error e r")
     (simp add: login_def login_catch_def api_call_def Let_def on_store_def clearAuth_initial
        removeItem_token_def)

lemma login_null_body:
  "login e credentials (Inr None)
     = (e\<lparr>token := None, authorization := None, store := initialAuthState\<rparr>, Inl TypeError)"
  by (simp add: login_def login_catch_def api_call_def Let_def on_store_def clearAuth_initial
        removeItem_token_def)

lemma login_with_body:
  "login e credentials (Inr (Some body))
     = (e\<lparr>token := Some (to_string (access_token body)),
           authorization := Some (''Bearer '' @ to_string (access_token body)),
           store := (store e)\<lparr>user := response_user body, isAuthenticated := True\<rparr>\<rparr>,
        Inr (response_user body))"
  by (simp add: login_def api_call_def Let_def on_store_def setUser_def setIsAuthenticated_def
        setItem_token_def)

text \<open>
  A success whose body has none of the fields (an empty body, \<^verbatim>\<open>{}\<close>) is not a failure of
  \<^verbatim>\<open>login\<close>: nothing throws, the \<^verbatim>\<open>catch\<close> block is not entered, and \<^verbatim>\<open>login\<close> resolves
  without a user, having stored the token \<^verbatim>\<open>undefined\<close> and set the store to authenticated.
\<close>

lemma login_fieldless_body:
  "login e credentials
     (Inr (Some \<lparr>access_token = Undefined, token_type = Undefined, response_user = None\<rparr>))
     = (e\<lparr>token := Some ''undefined'', authorization := Some ''Bearer undefined'',
           store := (store e)\<lparr>user := None, isAuthenticated := True\<rparr>\<rparr>,
        Inr None)"
  by (simp add: login_with_body)

text \<open>
  Claim C9.  \<^verbatim>\<open>login\<close> fails, that is throws, exactly when the login request is rejected (it
  then rethrows what the adapter rejected with: the error of the response, for every status
  but 422) or when a later step throws (a success whose body is \<^verbatim>\<open>null\<close>, the destructuring
  of which throws a \<^verbatim>\<open>TypeError\<close>); with any other body it resolves.  Whenever it fails, the
  token is removed from storage, the default authorization header is deleted and the session
  store is in its initial state.
\<close>

theorem failed_login_resets:
  shows "(\<forall>r. answer = Inl r \<longrightarrow>
            snd (login e credentials answer) = Inl (snd (response_error e r)))
       \<and> (answer = Inr None \<longrightarrow> snd (login e credentials answer) = Inl TypeError)
       \<and> (\<forall>r. answer = Inl (Some r) \<and> status r \<noteq> 422 \<longrightarrow>
            snd (login e credentials answer) = Inl (AxiosError (Some r)))
       \<and> (\<forall>body. answer = Inr (Some body) \<longrightarrow>
            snd (login e credentials answer) = Inr (response_user body))
       \<and> (\<forall>x. snd (login e credentials answer) = Inl x \<longrightarrow>
            token (fst (login e credentials answer)) = None
          \<and> authorization (fst (login e credentials answer)) = None
          \<and> store (fst (login e credentials answer)) = initialAuthState)"
proof (cases answer)
  case (Inl r)
  then show ?thesis
    by (auto simp: login_rejected response_error_rethrows)
next
  case (Inr body)
  then show ?thesis
    by (cases body) (simp_all add: login_null_body login_with_body)
qed

theorem failed_login_resets_witness:
  "snd (login (signed_in (sample_user (Str ''admin'') (Str ''T1'')))
          \<lparr>credentials_username = ''ana@example.com'', credentials_password = ''wrong''\<rparr>
          (Inl (status_only 401))) = Inl (AxiosError (status_only 401))
   \<and> token (fst (login (signed_in (sample_user (Str ''admin'') (Str ''T1'')))
          \<lparr>credentials_username = ''ana@example.com'', credentials_password = ''wrong''\<rparr>
          (Inl (status_only 401)))) = None
   \<and> authorization (fst (login (signed_in (sample_user (Str ''admin'') (Str ''T1'')))
          \<lparr>credentials_username = ''ana@example.com'', credentials_password = ''wrong''\<rparr>
          (Inl (status_only 401)))) = None
   \<and> store (fst (login (signed_in (sample_user (Str ''admin'') (Str ''T1'')))
          \<lparr>credentials_username = ''ana@example.com'', credentials_password = ''wrong''\<rparr>
          (Inl (status_only 401)))) = initialAuthState
   \<and> snd (login (signed_in (sample_user (Str ''admin'') (Str ''T1'')))
          \<lparr>credentials_username = ''ana@example.com'', credentials_password = ''secret''\<rparr>
          (Inr None)) = Inl TypeError
   \<and> store (fst (login (signed_in (sample_user (Str ''admin'') (Str ''T1'')))
          \<lparr>credentials_username = ''ana@example.com'', credentials_password = ''secret''\<rparr>
          (Inr None))) = initialAuthState"
  using
    failed_login_resets [of "Inl (status_only 401)"
      "signed_in (sample_user (Str ''admin'') (Str ''T1''))"
      "\<lparr>credentials_username = ''ana@example.com'', credentials_password = ''wrong''\<rparr>"]
    failed_login_resets [of "Inr None"
      "signed_in (sample_user (Str ''admin'') (Str ''T1''))"
      "\<lparr>credentials_username = ''ana@example.com'', credentials_password = ''secret''\<rparr>"]
  by (simp add: status_only_def response_error_rethrows)

text \<open>
  Claim C10.  \<^verbatim>\<open>isTokenValid\<close> returns a boolean for every content of the token slot,
  whatever the decoder does: it never throws.  It returns false when no token is stored and
  when the decoder throws on the stored string, and it returns true only when the decoded
  payload has an \<^verbatim>\<open>exp\<close> strictly greater than the current time in seconds.
\<close>

theorem isTokenValid_total:
  shows "(\<exists>b. isTokenValid jwtDecode now e = Inr b)
       \<and> (token e = None \<longrightarrow> isTokenValid jwtDecode now e = Inr False)
       \<and> (\<forall>t x. token e = Some t \<and> jwtDecode t = Inl x \<longrightarrow>
             isTokenValid jwtDecode now e = Inr False)
       \<and> (isTokenValid jwtDecode now e = Inr True \<longrightarrow>
             (\<exists>t decoded x. token e = Some t \<and> jwtDecode t = Inr decoded
                 \<and> jwt_exp decoded = Some x \<and> x > real_of_int now / 1000))"
  by (auto simp: isTokenValid_def Let_def split: option.splits sum.splits if_splits)

theorem isTokenValid_total_witness:
  "isTokenValid sample_decoder 1500000 fresh_tab = Inr False
   \<and> isTokenValid sample_decoder 1500000 (fresh_tab\<lparr>token := Some ''garbage''\<rparr>) = Inr False
   \<and> isTokenValid sample_decoder 1500000 (fresh_tab\<lparr>token := Some ''old''\<rparr>) = Inr False
   \<and> isTokenValid sample_decoder 1500000 (fresh_tab\<lparr>token := Some ''tok''\<rparr>) = Inr True
   \<and> (\<exists>t decoded x. token (fresh_tab\<lparr>token := Some ''tok''\<rparr>) = Some t
         \<and> sample_decoder t = Inr decoded \<and> jwt_exp decoded = Some x
         \<and> x > real_of_int 1500000 / 1000)"
proof -
  have v: "isTokenValid sample_decoder 1500000 (fresh_tab\<lparr>token := Some ''tok''\<rparr>) = Inr True"
    by (simp add: isTokenValid_def sample_decoder_def)
  have o: "isTokenValid sample_decoder 1500000 (fresh_tab\<lparr>token := Some ''old''\<rparr>) = Inr False"
    by (simp add: isTokenValid_def sample_decoder_def)
  show ?thesis
    using v o
      isTokenValid_total [of sample_decoder 1500000 fresh_tab]
      isTokenValid_total [of sample_decoder 1500000 "fresh_tab\<lparr>token := Some ''garbage''\<rparr>"]
      isTokenValid_total [of sample_decoder 1500000 "fresh_tab\<lparr>token := Some ''tok''\<rparr>"]
    by (simp add: fresh_tab_def sample_decoder_def)
qed

section \<open>Properties of session recovery\<close>

lemma role_present_signed_in:
  "\<not> falsy (role u) \<Longrightarrow> role_present (setIsAuthenticated True (setUser (Some u) s))"
  by (simp add: role_present_def setIsAuthenticated_def setUser_def)


lemma role_present_selected:
  "role_present s \<Longrightarrow> role_present (setSelectedCompanyId c s)"
  by (simp add: role_present_def setSelectedCompanyId_def)


lemma rehydrate_without_role:
  assumes "token e \<noteq> None" "token e \<noteq> Some []"
      and "isTokenValid jwtDecode now1 e = Inr True" "isTokenValid jwtDecode now2 e = Inr True"
      and "falsy (role u)"
  shows "attemptRehydrate jwtDecode now1 now2 rendered e (Inr (Some u))
           = (e\<lparr>token := None, store := initialAuthState\<rparr>, None)"
  using assms
  by (simp add: attemptRehydrate_def refreshToken_def api_call_def clear_and_remove_def
        removeItem_token_def on_store_def clearAuth_initial Let_def)


lemma guard_on_corrupted:
  assumes "isAuthenticated (store e)" "\<not> role_present (store e)"
  shows "ProtectedRoute e rp location children
           = (e\<lparr>store := initialAuthState\<rparr>, Navigate ''/login'' (Some location) True)"
proof (cases "user (store e)")
  case None
  with assms show ?thesis
    by (simp add: ProtectedRoute_def on_store_def clearAuth_initial)
next
  case (Some u)
  with assms have "falsy (role u)" by (simp add: role_present_def)
  with assms Some show ?thesis
    by (simp add: ProtectedRoute_def on_store_def clearAuth_initial)
qed


lemma guard_store:
  "store (fst (ProtectedRoute e rp location children)) = store e
   \<or> store (fst (ProtectedRoute e rp location children)) = initialAuthState"
  by (simp add: ProtectedRoute_def store_on_store clearAuth_initial
        split: option.splits jsstr.splits)


lemma guard_leaves_role_present:
  "role_present (store (fst (ProtectedRoute e rp location children)))"
proof (cases "isAuthenticated (store e) \<and> \<not> role_present (store e)")
  case True
  then show ?thesis by (simp add: guard_on_corrupted role_present_initial)
next
  case False
  then have "role_present (store e)" by (auto simp: role_present_def)
  with guard_store [of e rp location children] show ?thesis
    by (auto simp: role_present_initial)
qed


lemma guard_renders_only_with_role:
  assumes "snd (ProtectedRoute e rp location children) = Children children"
  shows "isAuthenticated (store e) \<and> role_present (store e)"
proof -
  have a: "isAuthenticated (store e)"
    using assms by (auto simp: ProtectedRoute_def split: if_splits)
  have "role_present (store e)"
  proof (rule ccontr)
    assume "\<not> role_present (store e)"
    from guard_on_corrupted [OF a this, of rp location children] assms show False by simp
  qed
  with a show ?thesis by simp
qed


lemma rehydrate_leaves_role_present:
  assumes "rendered = isAuthenticated (store e)"
  shows "role_present (store (fst (attemptRehydrate jwtDecode now1 now2 rendered e answer)))"
proof (cases "token e \<noteq> None \<and> token e \<noteq> Some []")
  case False
  show ?thesis
  proof (cases rendered)
    case True
    with False show ?thesis
      by (auto simp: attemptRehydrate_def store_on_store clearAuth_initial role_present_initial)
  next
    case unauth: False
    with assms have "role_present (store e)"
      by (simp add: role_present_def)
    with False unauth show ?thesis
      by (auto simp: attemptRehydrate_def)
  qed
next
  case held: True
  show ?thesis
  proof (cases "isTokenValid jwtDecode now1 e")
    case (Inl x)
    then show ?thesis
      by (auto simp: isTokenValid_def split: option.splits sum.splits if_splits)
  next
    case (Inr b)
    show ?thesis
    proof (cases b)
      case False
      with held Inr show ?thesis
        by (simp add: attemptRehydrate_def store_clear_and_remove role_present_initial)
    next
      case True
      obtain e0 res where rt: "refreshToken jwtDecode now2 e answer = (e0, res)"
        by (cases "refreshToken jwtDecode now2 e answer")
      show ?thesis
      proof (cases res)
        case (Inl x)
        with held Inr True rt show ?thesis
          by (simp add: attemptRehydrate_def store_clear_and_remove role_present_initial)
      next
        case ok: (Inr body)
        show ?thesis
        proof (cases body)
          case None
          with held Inr True rt ok show ?thesis
            by (simp add: attemptRehydrate_def store_clear_and_remove role_present_initial)
        next
          case (Some u)
          show ?thesis
          proof (cases "falsy (role u)")
            case True
            with held Inr \<open>b\<close> rt ok Some show ?thesis
              by (simp add: attemptRehydrate_def store_clear_and_remove role_present_initial)
          next
            case False
            with held Inr \<open>b\<close> rt ok Some show ?thesis
              by (simp add: attemptRehydrate_def Let_def store_on_store
                    role_present_signed_in role_present_selected)
          qed
        qed
      qed
    qed
  qed
qed


text \<open>
  Claim C7, as amended.  When rehydration holds a token that \<^verbatim>\<open>isTokenValid\<close> accepts and
  \<^verbatim>\<open>/auth/me\<close> answers with a user whose role is missing, the session store is cleared and
  the token is removed.  When the guard finds an authenticated state with no user or no
  role, it clears the session store and redirects to \<^verbatim>\<open>/login\<close>.  The invariant
  \<open>role_present\<close> holds in the state every guard evaluation leaves and in the state
  rehydration leaves (started with the \<^verbatim>\<open>isAuthenticated\<close> it rendered with), and the guard
  renders protected content only for an authenticated user with a role.
\<close>

theorem corrupted_session_recovery:
  fixes e :: env and children :: 'c
  shows
   "(token e \<noteq> None \<and> token e \<noteq> Some []
       \<and> isTokenValid jwtDecode now1 e = Inr True \<and> isTokenValid jwtDecode now2 e = Inr True
       \<and> falsy (role u) \<longrightarrow>
      fst (attemptRehydrate jwtDecode now1 now2 rendered e (Inr (Some u)))
        = e\<lparr>token := None, store := initialAuthState\<rparr>
      \<and> snd (attemptRehydrate jwtDecode now1 now2 rendered e (Inr (Some u))) = None)
  \<and> (isAuthenticated (store e) \<and> \<not> role_present (store e) \<longrightarrow>
      ProtectedRoute e rp location children
        = (e\<lparr>store := initialAuthState\<rparr>, Navigate ''/login'' (Some location) True))
  \<and> role_present (store (fst (ProtectedRoute e rp location children)))
  \<and> (snd (ProtectedRoute e rp location children) = Children children \<longrightarrow>
        isAuthenticated (store e) \<and> role_present (store e))
  \<and> (rendered = isAuthenticated (store e) \<longrightarrow>
        role_present (store (fst (attemptRehydrate jwtDecode now1 now2 rendered e answer))))"
proof (intro conjI impI)
  assume "token e \<noteq> None \<and> token e \<noteq> Some []
       \<and> isTokenValid jwtDecode now1 e = Inr True \<and> isTokenValid jwtDecode now2 e = Inr True
       \<and> falsy (role u)"
  then have r: "attemptRehydrate jwtDecode now1 now2 rendered e (Inr (Some u))
           = (e\<lparr>token := None, store := initialAuthState\<rparr>, None)"
    by (intro rehydrate_without_role) simp_all
  from r show "fst (attemptRehydrate jwtDecode now1 now2 rendered e (Inr (Some u)))
        = e\<lparr>token := None, store := initialAuthState\<rparr>" by simp
  from r show "snd (attemptRehydrate jwtDecode now1 now2 rendered e (Inr (Some u))) = None"
    by simp
next
  assume "isAuthenticated (store e) \<and> \<not> role_present (store e)"
  then show "ProtectedRoute e rp location children
        = (e\<lparr>store := initialAuthState\<rparr>, Navigate ''/login'' (Some location) True)"
    by (intro guard_on_corrupted) simp_all
next
  show "role_present (store (fst (ProtectedRoute e rp location children)))"
    by (rule guard_leaves_role_present)
next
  assume c: "snd (ProtectedRoute e rp location children) = Children children"
  from guard_renders_only_with_role [OF c] show "isAuthenticated (store e)" by simp
  from guard_renders_only_with_role [OF c] show "role_present (store e)" by simp
next
  assume "rendered = isAuthenticated (store e)"
  then show "role_present (store (fst (attemptRehydrate jwtDecode now1 now2 rendered e answer)))"
    by (rule rehydrate_leaves_role_present)
qed


theorem corrupted_session_recovery_witness:
  "fst (attemptRehydrate sample_decoder 1500000 1500001 False
          (fresh_tab\<lparr>token := Some ''tok''\<rparr>) (Inr (Some (sample_user Null (Str ''T1'')))))
     = fresh_tab\<lparr>token := Some ''tok''\<rparr>\<lparr>token := None, store := initialAuthState\<rparr>
   \<and> ProtectedRoute (signed_in (sample_user Null (Str ''T1''))) NoRole ''/tickets'' ()
     = ((signed_in (sample_user Null (Str ''T1'')))\<lparr>store := initialAuthState\<rparr>,
        Navigate ''/login'' (Some ''/tickets'') True)"
proof -
  have p: "token (fresh_tab\<lparr>token := Some ''tok''\<rparr>) \<noteq> None
       \<and> token (fresh_tab\<lparr>token := Some ''tok''\<rparr>) \<noteq> Some []
       \<and> isTokenValid sample_decoder 1500000 (fresh_tab\<lparr>token := Some ''tok''\<rparr>) = Inr True
       \<and> isTokenValid sample_decoder 1500001 (fresh_tab\<lparr>token := Some ''tok''\<rparr>) = Inr True
       \<and> falsy (role (sample_user Null (Str ''T1'')))"
    by (simp add: isTokenValid_def sample_decoder_def sample_user_def)
  have q: "isAuthenticated (store (signed_in (sample_user Null (Str ''T1''))))
       \<and> \<not> role_present (store (signed_in (sample_user Null (Str ''T1''))))"
    by (simp add: role_present_def signed_in_def sample_user_def)
  note rehydrate =
    corrupted_session_recovery [of "fresh_tab\<lparr>token := Some ''tok''\<rparr>" sample_decoder
        1500000 1500001 "sample_user Null (Str ''T1'')" False NoRole "''/tickets''" "()",
      THEN conjunct1, THEN mp, OF p, THEN conjunct1]
  note guard =
    corrupted_session_recovery [of "signed_in (sample_user Null (Str ''T1''))" sample_decoder
        1500000 1500001 "sample_user Null (Str ''T1'')" False NoRole "''/tickets''" "()",
      THEN conjunct2, THEN conjunct1, THEN mp, OF q]
  from rehydrate guard show ?thesis by (intro conjI)
qed

text \<open>
  Claim C7 as stated fails.  The guard, finding a signed-in user without a role, leaves the
  stored token in place; and signing in with a user record that has no role ends in a state
  that is authenticated without a role.
\<close>

theorem guard_keeps_token_counterexample:
  "token (fst (ProtectedRoute (signed_in (sample_user Undefined (Str ''T1''))) NoRole ''/tickets'' ()))
     = Some ''tok''
   \<and> isAuthenticated (store (fst (handleSubmit fresh_tab idle_page ''ana@example.com'' ''secret''
        (login_ok (sample_user Undefined (Str ''T1'')))))) = True
   \<and> user (store (fst (handleSubmit fresh_tab idle_page ''ana@example.com'' ''secret''
        (login_ok (sample_user Undefined (Str ''T1''))))))
       = Some (sample_user Undefined (Str ''T1''))
   \<and> role (sample_user Undefined (Str ''T1'')) = Undefined"
  using email_test_sample
  by (simp add: ProtectedRoute_def signed_in_def sample_user_def on_store_def
      handleSubmit_def validateForm_def no_errors_def login_def login_ok_def api_call_def
        Let_def setUser_def setIsAuthenticated_def setSelectedCompanyId_def
        setItem_token_def navigate_def fresh_tab_def)



end
